theory Spec2Isabelle
  imports Complex_Main "HOL-Library.Sublist"
begin

section \<open>Python values that reach the error classifier\<close>

text \<open>
  \<^verbatim>\<open>json.loads\<close> hands back \<^verbatim>\<open>None\<close>, a bool, an int, a float, a str, a list or a
  dict with str keys. A float is a rational, an infinity or NaN (the decoder accepts
  \<^verbatim>\<open>Infinity\<close>, \<^verbatim>\<open>-Infinity\<close> and \<^verbatim>\<open>NaN\<close>); both zeros are \<open>Finite 0\<close>. A dict is
  the list of its items, read with \<open>map_of\<close>.
\<close>

datatype pyfloat = Finite rat | PosInf | NegInf | NaN

datatype pyval =
    PNone
  | PBool bool
  | PInt int
  | PFloat pyfloat
  | PStr string
  | PList "pyval list"
  | PDict "(string \<times> pyval) list"

text \<open>\<^verbatim>\<open>d.get(k)\<close>: the value stored under \<open>k\<close>, \<^verbatim>\<open>None\<close> when the key is missing.\<close>

definition dict_get :: "(string \<times> pyval) list \<Rightarrow> string \<Rightarrow> pyval" where
  "dict_get items k = (case map_of items k of None \<Rightarrow> PNone | Some v \<Rightarrow> v)"

text \<open>Truth value testing, as \<^verbatim>\<open>bool(v)\<close> and the operands of \<^verbatim>\<open>and\<close> see it.\<close>

fun truthy :: "pyval \<Rightarrow> bool" where
  "truthy PNone = False"
| "truthy (PBool b) = b"
| "truthy (PInt n) = (n \<noteq> 0)"
| "truthy (PFloat f) = (f \<noteq> Finite 0)"
| "truthy (PStr s) = (s \<noteq> [])"
| "truthy (PList xs) = (xs \<noteq> [])"
| "truthy (PDict kvs) = (kvs \<noteq> [])"

text \<open>
  The decimal text of an int, as \<^verbatim>\<open>str(n)\<close> and an f-string field give it.
\<close>

fun digits :: "nat \<Rightarrow> string" where
  "digits n =
     (if n < 10 then [''0123456789'' ! n]
      else digits (n div 10) @ [''0123456789'' ! (n mod 10)])"

declare digits.simps [simp del]

definition str_int :: "int \<Rightarrow> string" where
  "str_int n = (if n < 0 then CHR ''-'' # digits (nat (- n)) else digits (nat n))"

text \<open>
  \<^verbatim>\<open>str(v)\<close>, which an f-string field \<^verbatim>\<open>{v}\<close> applies. For \<^verbatim>\<open>None\<close>, bools, ints and
  strs it is written out; for floats, lists and dicts Python falls back on \<^verbatim>\<open>repr\<close>, a
  builtin outside the repository, taken as the parameter \<open>py_repr\<close>.
\<close>

fun py_str :: "(pyval \<Rightarrow> string) \<Rightarrow> pyval \<Rightarrow> string" where
  "py_str py_repr PNone = ''None''"
| "py_str py_repr (PBool b) = (if b then ''True'' else ''False'')"
| "py_str py_repr (PInt n) = str_int n"
| "py_str py_repr (PStr s) = s"
| "py_str py_repr v = py_repr v"

section \<open>The transport error and the JSON decoder\<close>

text \<open>
  \<^verbatim>\<open>cdp.client.exceptions.ApiException\<close> is imported by \<^verbatim>\<open>errors.py\<close>; the classifier
  reads its \<^verbatim>\<open>status\<close> and its \<^verbatim>\<open>body\<close> (a str, or \<^verbatim>\<open>None\<close>). The argument of
  \<^verbatim>\<open>from_error\<close> is any Python object: an \<^verbatim>\<open>ApiException\<close> instance, or something else.
\<close>

record ApiException =
  status :: int
  body :: "string option"

datatype 'o py_arg = ApiException_instance ApiException | Other_object 'o

text \<open>
  The exceptions that can leave \<^verbatim>\<open>from_error\<close>: a \<^verbatim>\<open>ValueError\<close> with its message,
  the \<^verbatim>\<open>AttributeError\<close> of \<^verbatim>\<open>body.get\<close> on a value that is no dict, the \<^verbatim>\<open>TypeError\<close>
  of hashing an unhashable \<^verbatim>\<open>code\<close>, and any other exception, named by its class
  (\<^verbatim>\<open>RecursionError\<close>, for one).
\<close>

datatype py_exn = ValueError string | AttributeError | TypeError | OtherError string

text \<open>
  \<^verbatim>\<open>json.loads\<close> is the standard library's: the model takes it as a parameter
  \<open>json_loads\<close>. On a str it returns a value, raises \<^verbatim>\<open>JSONDecodeError\<close>, or raises
  something else: a plain \<^verbatim>\<open>ValueError\<close> when an integer literal has more digits than
  the interpreter's limit for int conversion, \<^verbatim>\<open>RecursionError\<close> on deep nesting.
  \<^verbatim>\<open>JSONDecodeError\<close> is a subclass of \<^verbatim>\<open>ValueError\<close>, but
  \<^verbatim>\<open>except json.JSONDecodeError\<close> catches it alone, so it is kept apart here.
\<close>

datatype decode_outcome = Decoded pyval | JSONDecodeError | DecoderRaised py_exn

section \<open>\<^verbatim>\<open>cdp/errors.py\<close>\<close>

text \<open>
  \<^verbatim>\<open>APIError\<close> and its 23 subclasses. The subclasses add nothing (\<^verbatim>\<open>pass\<close>), so an
  instance is its class and the four attributes \<^verbatim>\<open>__init__\<close> sets. The message of the
  \<^verbatim>\<open>Exception\<close> base, \<^verbatim>\<open>str(err)\<close>, is computed by \<^verbatim>\<open>ApiException.__str__\<close> outside
  \<^verbatim>\<open>errors.py\<close> and is not part of the record.
\<close>

datatype error_class =
    APIError
  | UnimplementedError
  | UnauthorizedError
  | InternalError
  | NotFoundError
  | InvalidWalletIDError
  | InvalidAddressIDError
  | InvalidWalletError
  | InvalidAddressError
  | InvalidAmountError
  | InvalidTransferIDError
  | InvalidPageError
  | InvalidLimitError
  | AlreadyExistsError
  | MalformedRequestError
  | UnsupportedAssetError
  | InvalidAssetIDError
  | InvalidDestinationError
  | InvalidNetworkIDError
  | ResourceExhaustedError
  | FaucetLimitReachedError
  | InvalidSignedPayloadError
  | InvalidTransferStatusError
  | NetworkFeatureUnsupportedError

record api_error =
  err_class :: error_class
  http_code :: int
  api_code :: pyval
  api_message :: pyval
  handled :: bool

text \<open>
  \<^verbatim>\<open>APIError.__init__(self, err, code=None, message=None, unhandled=False)\<close>, run by
  the class \<open>cls\<close> being instantiated:
  \<^verbatim>\<open>self._handled = bool(code and message and not unhandled)\<close>.
\<close>

definition APIError_init ::
  "error_class \<Rightarrow> ApiException \<Rightarrow> pyval \<Rightarrow> pyval \<Rightarrow> bool \<Rightarrow> api_error" where
  "APIError_init cls err code message unhandled =
     \<lparr>err_class = cls,
      http_code = status err,
      api_code = code,
      api_message = message,
      handled = (truthy code \<and> truthy message \<and> \<not> unhandled)\<rparr>"

definition ERROR_CODE_TO_ERROR_CLASS :: "(string \<times> error_class) list" where
  "ERROR_CODE_TO_ERROR_CLASS =
     [(''unimplemented'', UnimplementedError),
      (''unauthorized'', UnauthorizedError),
      (''internal'', InternalError),
      (''not_found'', NotFoundError),
      (''invalid_wallet_id'', InvalidWalletIDError),
      (''invalid_address_id'', InvalidAddressIDError),
      (''invalid_wallet'', InvalidWalletError),
      (''invalid_address'', InvalidAddressError),
      (''invalid_amount'', InvalidAmountError),
      (''invalid_transfer_id'', InvalidTransferIDError),
      (''invalid_page_token'', InvalidPageError),
      (''invalid_page_limit'', InvalidLimitError),
      (''already_exists'', AlreadyExistsError),
      (''malformed_request'', MalformedRequestError),
      (''unsupported_asset'', UnsupportedAssetError),
      (''invalid_asset_id'', InvalidAssetIDError),
      (''invalid_destination'', InvalidDestinationError),
      (''invalid_network_id'', InvalidNetworkIDError),
      (''resource_exhausted'', ResourceExhaustedError),
      (''faucet_limit_reached'', FaucetLimitReachedError),
      (''invalid_signed_payload'', InvalidSignedPayloadError),
      (''invalid_transfer_status'', InvalidTransferStatusError),
      (''network_feature_unsupported'', NetworkFeatureUnsupportedError)]"

text \<open>
  Lines 37 to 40 of \<^verbatim>\<open>from_error\<close>:
  \<^verbatim>\<open>
  if code in ERROR_CODE_TO_ERROR_CLASS:
      return ERROR_CODE_TO_ERROR_CLASS[code](err, code=code, message=message)
  else:
      return cls(err, code=code, message=message, unhandled=True)
  \<close>
  The membership test hashes \<^verbatim>\<open>code\<close>: a list or a dict is unhashable and raises
  \<^verbatim>\<open>TypeError\<close>. The keys are strs, so \<^verbatim>\<open>None\<close>, a bool or a number is never a member.
\<close>

fun dispatch :: "error_class \<Rightarrow> ApiException \<Rightarrow> pyval \<Rightarrow> pyval \<Rightarrow> py_exn + api_error" where
  "dispatch cls err (PStr c) message =
     (case map_of ERROR_CODE_TO_ERROR_CLASS c of
        Some k \<Rightarrow> Inr (APIError_init k err (PStr c) message False)
      | None \<Rightarrow> Inr (APIError_init cls err (PStr c) message True))"
| "dispatch cls err (PList xs) message = Inl TypeError"
| "dispatch cls err (PDict kvs) message = Inl TypeError"
| "dispatch cls err code message = Inr (APIError_init cls err code message True)"

text \<open>
  Lines 34 and 35: \<^verbatim>\<open>body.get("message")\<close>, then \<^verbatim>\<open>body.get("code")\<close>. Only a dict has
  \<^verbatim>\<open>get\<close>: on every other decoded value the first call raises \<^verbatim>\<open>AttributeError\<close>.
\<close>

fun classify_decoded :: "error_class \<Rightarrow> ApiException \<Rightarrow> pyval \<Rightarrow> py_exn + api_error" where
  "classify_decoded cls err (PDict items) =
     (let message = dict_get items ''message'';
          code = dict_get items ''code''
      in dispatch cls err code message)"
| "classify_decoded cls err v = Inl AttributeError"

text \<open>
  The classmethod \<^verbatim>\<open>from_error(cls, err)\<close>. \<^verbatim>\<open>not err.body\<close> holds for \<^verbatim>\<open>None\<close> and for
  the empty str; the \<^verbatim>\<open>try\<close> catches \<^verbatim>\<open>JSONDecodeError\<close> and nothing else, so any
  other exception of the decoder leaves \<^verbatim>\<open>from_error\<close> as it is.
\<close>

definition from_error ::
  "(string \<Rightarrow> decode_outcome) \<Rightarrow> error_class \<Rightarrow> 'o py_arg \<Rightarrow> py_exn + api_error" where
  "from_error json_loads cls arg =
     (case arg of
        Other_object x \<Rightarrow> Inl (ValueError ''argument must be an ApiException'')
      | ApiException_instance err \<Rightarrow>
          (case body err of
             None \<Rightarrow> Inr (APIError_init cls err PNone PNone False)
           | Some s \<Rightarrow>
               if s = [] then Inr (APIError_init cls err PNone PNone False)
               else
                 (case json_loads s of
                    JSONDecodeError \<Rightarrow> Inr (APIError_init cls err PNone PNone False)
                  | DecoderRaised e \<Rightarrow> Inl e
                  | Decoded v \<Rightarrow> classify_decoded cls err v)))"

text \<open>
  \<^verbatim>\<open>APIError.__str__\<close>, inherited unchanged by every subclass: the text starts with
  \<^verbatim>\<open>APIError(\<close> whatever the class.
\<close>

definition APIError_str :: "(pyval \<Rightarrow> string) \<Rightarrow> api_error \<Rightarrow> string" where
  "APIError_str py_repr e =
     (if handled e then
        ''APIError(http_code='' @ str_int (http_code e) @
        '', api_code='' @ py_str py_repr (api_code e) @
        '', api_message='' @ py_str py_repr (api_message e) @ '')''
      else
        ''APIError(http_code='' @ str_int (http_code e) @
        '', api_code='' @ py_str py_repr (api_code e) @
        '', api_message='' @ py_str py_repr (api_message e) @ '', unhandled=True)'')"

section \<open>\<^verbatim>\<open>cdp/client/models/webhook_event_filter.py\<close>\<close>

text \<open>
  A pydantic (version 2) model with three \<^verbatim>\<open>Optional[StrictStr]\<close> fields, each with
  default \<^verbatim>\<open>None\<close>. Besides the field values an instance carries
  \<^verbatim>\<open>model_fields_set\<close>, the names of the fields given at construction. Equality of two
  instances of one model class compares the field values only (\<^verbatim>\<open>BaseModel.__eq__\<close>), not
  \<^verbatim>\<open>model_fields_set\<close>.
\<close>

record WebhookEventFilter =
  contract_address :: "string option"
  from_address :: "string option"
  to_address :: "string option"
  model_fields_set :: "string set"

definition model_eq :: "WebhookEventFilter \<Rightarrow> WebhookEventFilter \<Rightarrow> bool" where
  "model_eq x y \<longleftrightarrow>
     contract_address x = contract_address y \<and>
     from_address x = from_address y \<and>
     to_address x = to_address y"

definition properties :: "string list" where
  "properties = [''contract_address'', ''from_address'', ''to_address'']"

datatype model_exn = ValidationError

text \<open>
  Validation of one \<^verbatim>\<open>Optional[StrictStr]\<close> value: \<^verbatim>\<open>None\<close> and a str pass unchanged, and
  strict mode coerces nothing else.
\<close>

fun validate_optional_strict_str :: "pyval \<Rightarrow> model_exn + string option" where
  "validate_optional_strict_str PNone = Inr None"
| "validate_optional_strict_str (PStr s) = Inr (Some s)"
| "validate_optional_strict_str v = Inl ValidationError"

definition validate_key :: "(string \<times> pyval) list \<Rightarrow> string \<Rightarrow> model_exn + string option" where
  "validate_key d k =
     (case map_of d k of None \<Rightarrow> Inr None | Some v \<Rightarrow> validate_optional_strict_str v)"

text \<open>
  \<^verbatim>\<open>cls.model_validate(d)\<close> on a dict, which is also what the constructor
  \<^verbatim>\<open>WebhookEventFilter(**d)\<close> runs: every field present is validated, a missing field
  takes its default, keys that are no field are ignored, and the fields present are
  recorded in \<^verbatim>\<open>model_fields_set\<close>.
\<close>

definition model_validate :: "(string \<times> pyval) list \<Rightarrow> model_exn + WebhookEventFilter" where
  "model_validate d =
     (case validate_key d ''contract_address'' of
        Inl e \<Rightarrow> Inl e
      | Inr c \<Rightarrow>
          (case validate_key d ''from_address'' of
             Inl e \<Rightarrow> Inl e
           | Inr f \<Rightarrow>
               (case validate_key d ''to_address'' of
                  Inl e \<Rightarrow> Inl e
                | Inr t \<Rightarrow>
                    Inr \<lparr>contract_address = c, from_address = f, to_address = t,
                         model_fields_set = set properties \<inter> fst ` set d\<rparr>)))"

text \<open>
  \<^verbatim>\<open>to_dict\<close>: \<^verbatim>\<open>self.model_dump(by_alias=True, exclude=set(), exclude_none=True)\<close>.
  No field has an alias and nothing is excluded by name, so the result holds, in
  declaration order, the fields whose value is not \<^verbatim>\<open>None\<close>.
\<close>

definition to_dict :: "WebhookEventFilter \<Rightarrow> (string \<times> pyval) list" where
  "to_dict x =
     List.map_filter
       (\<lambda>(k, v). case v of None \<Rightarrow> None | Some s \<Rightarrow> Some (k, PStr s))
       [(''contract_address'', contract_address x),
        (''from_address'', from_address x),
        (''to_address'', to_address x)]"

text \<open>
  \<^verbatim>\<open>from_dict(cls, obj)\<close>: \<^verbatim>\<open>None\<close> for \<^verbatim>\<open>None\<close>; a dict is read key by key with
  \<^verbatim>\<open>obj.get\<close> and validated; any other value goes to \<^verbatim>\<open>model_validate\<close> as it is, which
  rejects what is neither a dict nor an instance.
\<close>

definition from_dict :: "pyval \<Rightarrow> model_exn + WebhookEventFilter option" where
  "from_dict obj =
     (case obj of
        PNone \<Rightarrow> Inr None
      | PDict d \<Rightarrow>
          (case model_validate
                  [(''contract_address'', dict_get d ''contract_address''),
                   (''from_address'', dict_get d ''from_address''),
                   (''to_address'', dict_get d ''to_address'')] of
             Inl e \<Rightarrow> Inl e
           | Inr x \<Rightarrow> Inr (Some x))
      | _ \<Rightarrow> Inl ValidationError)"

section \<open>Example bodies\<close>

text \<open>
  What \<^verbatim>\<open>json.loads\<close> returns on the bodies used as examples below. A decoder for the
  examples answers from this table and raises \<^verbatim>\<open>JSONDecodeError\<close> on every other str;
  \<^verbatim>\<open>not json\<close> is such a str.
\<close>

definition example_bodies :: "(string \<times> pyval) list" where
  \<open>example_bodies =
     [(''{"code":"not_found","message":"wallet not found"}'',
         PDict [(''code'', PStr ''not_found''), (''message'', PStr ''wallet not found'')]),
      (''{"code":"not_found","message":""}'',
         PDict [(''code'', PStr ''not_found''), (''message'', PStr [])]),
      (''{"code":"unauthorized","message":""}'',
         PDict [(''code'', PStr ''unauthorized''), (''message'', PStr [])]),
      (''{"code":"not_found"}'',
         PDict [(''code'', PStr ''not_found'')]),
      (''{"code":"not_found","message":"x, unhandled=True"}'',
         PDict [(''code'', PStr ''not_found''), (''message'', PStr ''x, unhandled=True'')]),
      (''{"code":"totally_unknown_code","message":"m"}'',
         PDict [(''code'', PStr ''totally_unknown_code''), (''message'', PStr ''m'')]),
      (''{"code":[]}'',
         PDict [(''code'', PList [])]),
      (''[1]'', PList [PInt 1])]\<close>

definition example_loads :: "string \<Rightarrow> decode_outcome" where
  "example_loads s =
     (case map_of example_bodies s of Some v \<Rightarrow> Decoded v | None \<Rightarrow> JSONDecodeError)"

section \<open>Properties\<close>

subsection \<open>The registry\<close>

lemma registry_keys:
  "fst ` set ERROR_CODE_TO_ERROR_CLASS =
     {''unimplemented'', ''unauthorized'', ''internal'', ''not_found'',
      ''invalid_wallet_id'', ''invalid_address_id'', ''invalid_wallet'',
      ''invalid_address'', ''invalid_amount'', ''invalid_transfer_id'',
      ''invalid_page_token'', ''invalid_page_limit'', ''already_exists'',
      ''malformed_request'', ''unsupported_asset'', ''invalid_asset_id'',
      ''invalid_destination'', ''invalid_network_id'', ''resource_exhausted'',
      ''faucet_limit_reached'', ''invalid_signed_payload'',
      ''invalid_transfer_status'', ''network_feature_unsupported''}"
  by (simp add: ERROR_CODE_TO_ERROR_CLASS_def)

lemma registry_classes_not_base: "APIError \<notin> snd ` set ERROR_CODE_TO_ERROR_CLASS"
  by (simp add: ERROR_CODE_TO_ERROR_CLASS_def)

lemma registry_key_nonempty: "[] \<notin> fst ` set ERROR_CODE_TO_ERROR_CLASS"
  by (simp add: ERROR_CODE_TO_ERROR_CLASS_def)

lemma registry_distinct_keys: "distinct (map fst ERROR_CODE_TO_ERROR_CLASS)"
  by (simp add: ERROR_CODE_TO_ERROR_CLASS_def)

lemma registry_distinct_classes: "distinct (map snd ERROR_CODE_TO_ERROR_CLASS)"
  by (simp add: ERROR_CODE_TO_ERROR_CLASS_def)

lemma registry_lookup_key:
  assumes "map_of ERROR_CODE_TO_ERROR_CLASS c = Some k"
  shows "c \<in> fst ` set ERROR_CODE_TO_ERROR_CLASS" and "c \<noteq> []" and "k \<noteq> APIError"
proof -
  from assms have mem: "(c, k) \<in> set ERROR_CODE_TO_ERROR_CLASS"
    by (rule map_of_SomeD)
  then show "c \<in> fst ` set ERROR_CODE_TO_ERROR_CLASS"
    by force
  with registry_key_nonempty show "c \<noteq> []"
    by metis
  from mem have "k \<in> snd ` set ERROR_CODE_TO_ERROR_CLASS"
    by force
  with registry_classes_not_base show "k \<noteq> APIError"
    by metis
qed

lemma registry_lookup_iff:
  "(map_of ERROR_CODE_TO_ERROR_CLASS c = Some k) = ((c, k) \<in> set ERROR_CODE_TO_ERROR_CLASS)"
  using registry_distinct_keys by (rule map_of_eq_Some_iff)

lemma registry_lookup_None:
  "(map_of ERROR_CODE_TO_ERROR_CLASS c = None) = (c \<notin> fst ` set ERROR_CODE_TO_ERROR_CLASS)"
  by (rule map_of_eq_None_iff)

lemma example_loads_simps:
  \<open>example_loads ''{"code":"not_found","message":"wallet not found"}'' =
     Decoded (PDict [(''code'', PStr ''not_found''), (''message'', PStr ''wallet not found'')])\<close>
  \<open>example_loads ''{"code":"not_found","message":""}'' =
     Decoded (PDict [(''code'', PStr ''not_found''), (''message'', PStr [])])\<close>
  \<open>example_loads ''{"code":"unauthorized","message":""}'' =
     Decoded (PDict [(''code'', PStr ''unauthorized''), (''message'', PStr [])])\<close>
  \<open>example_loads ''{"code":"not_found"}'' = Decoded (PDict [(''code'', PStr ''not_found'')])\<close>
  \<open>example_loads ''{"code":"not_found","message":"x, unhandled=True"}'' =
     Decoded (PDict [(''code'', PStr ''not_found''), (''message'', PStr ''x, unhandled=True'')])\<close>
  \<open>example_loads ''{"code":"totally_unknown_code","message":"m"}'' =
     Decoded (PDict [(''code'', PStr ''totally_unknown_code''), (''message'', PStr ''m'')])\<close>
  \<open>example_loads ''{"code":[]}'' = Decoded (PDict [(''code'', PList [])])\<close>
  \<open>example_loads ''[1]'' = Decoded (PList [PInt 1])\<close>
  \<open>example_loads ''not json'' = JSONDecodeError\<close>
  by (simp_all add: example_loads_def example_bodies_def)

lemma registry_examples:
  "map_of ERROR_CODE_TO_ERROR_CLASS ''not_found'' = Some NotFoundError"
  "map_of ERROR_CODE_TO_ERROR_CLASS ''unauthorized'' = Some UnauthorizedError"
  "map_of ERROR_CODE_TO_ERROR_CLASS ''totally_unknown_code'' = None"
  by (simp_all add: ERROR_CODE_TO_ERROR_CLASS_def)

lemma from_error_decoded:
  assumes "s \<noteq> []" and "json_loads s = Decoded v"
  shows "from_error json_loads cls (ApiException_instance \<lparr>status = S, body = Some s\<rparr>) =
         classify_decoded cls \<lparr>status = S, body = Some s\<rparr> v"
  using assms by (simp add: from_error_def)

subsection \<open>C1: a registry code with a message\<close>

text \<open>
  Counterexample to C1 as stated. Status 404 and the body
  \<^verbatim>\<open>{"code":"not_found","message":""}\<close>: the code is a registry key and the message is a
  string, the empty one. The result is a \<^verbatim>\<open>NotFoundError\<close> whose \<^verbatim>\<open>handled\<close> is false:
  \<^verbatim>\<open>bool(code and message and not unhandled)\<close> takes the empty message for false.
\<close>

theorem known_code_empty_message_counterexample:
  \<open>map_of ERROR_CODE_TO_ERROR_CLASS ''not_found'' = Some NotFoundError \<and>
   example_loads ''{"code":"not_found","message":""}'' =
     Decoded (PDict [(''code'', PStr ''not_found''), (''message'', PStr [])]) \<and>
   from_error example_loads APIError
     (ApiException_instance \<lparr>status = 404, body = Some ''{"code":"not_found","message":""}''\<rparr>
        :: unit py_arg) =
     Inr \<lparr>err_class = NotFoundError, http_code = 404, api_code = PStr ''not_found'',
          api_message = PStr [], handled = False\<rparr>\<close>
  by (simp add: registry_examples example_loads_simps from_error_def dict_get_def
      APIError_init_def)

text \<open>
  C1, amended: for every code \<open>C\<close> that is a key of the registry, every non-empty
  message string \<open>m\<close> and every status \<open>S\<close>, classifying a transport error with status
  \<open>S\<close> and a body that decodes to \<^verbatim>\<open>{"code": C, "message": m}\<close> returns a typed error of
  exactly the class the registry maps \<open>C\<close> to, with \<^verbatim>\<open>handled = True\<close>, \<^verbatim>\<open>api_code = C\<close>,
  \<^verbatim>\<open>api_message = m\<close> and \<^verbatim>\<open>http_code = S\<close>.
\<close>

theorem known_code_nonempty_message:
  assumes "map_of ERROR_CODE_TO_ERROR_CLASS C = Some k"
    and "m \<noteq> []"
    and "b \<noteq> []"
    and "json_loads b = Decoded (PDict [(''code'', PStr C), (''message'', PStr m)])"
  shows "from_error json_loads APIError (ApiException_instance \<lparr>status = S, body = Some b\<rparr>) =
         Inr \<lparr>err_class = k, http_code = S, api_code = PStr C, api_message = PStr m,
              handled = True\<rparr>"
proof -
  have "C \<noteq> []"
    using assms(1) by (rule registry_lookup_key)
  with assms show ?thesis
    by (simp add: from_error_decoded dict_get_def APIError_init_def)
qed

text \<open>
  The spec's scenario as an instance of C1: status 404, code \<^verbatim>\<open>not_found\<close>, message
  \<^verbatim>\<open>wallet not found\<close>.
\<close>

theorem known_code_nonempty_message_witness:
  \<open>from_error example_loads APIError
     (ApiException_instance
        \<lparr>status = 404, body = Some ''{"code":"not_found","message":"wallet not found"}''\<rparr>
        :: unit py_arg) =
     Inr \<lparr>err_class = NotFoundError, http_code = 404, api_code = PStr ''not_found'',
          api_message = PStr ''wallet not found'', handled = True\<rparr>\<close>
  by (rule known_code_nonempty_message) (simp_all add: registry_examples example_loads_simps)

lemma dispatch_handled:
  assumes "dispatch cls err code message = Inr e"
  shows "handled e \<longleftrightarrow>
         (\<exists>c. code = PStr c \<and> c \<in> fst ` set ERROR_CODE_TO_ERROR_CLASS) \<and> truthy message"
proof (cases code)
  case (PStr c)
  show ?thesis
  proof (cases "map_of ERROR_CODE_TO_ERROR_CLASS c")
    case None
    with PStr assms have "\<not> handled e"
      by (auto simp: APIError_init_def)
    moreover from None have "c \<notin> fst ` set ERROR_CODE_TO_ERROR_CLASS"
      by (simp add: registry_lookup_None)
    ultimately show ?thesis
      using PStr by simp
  next
    case (Some k)
    then have "c \<in> fst ` set ERROR_CODE_TO_ERROR_CLASS" and "c \<noteq> []"
      by (rule registry_lookup_key)+
    moreover from PStr Some assms have "handled e \<longleftrightarrow> c \<noteq> [] \<and> truthy message"
      by (auto simp: APIError_init_def)
    ultimately show ?thesis
      using PStr by simp
  qed
qed (use assms in \<open>auto simp: APIError_init_def\<close>)

lemma dispatch_fields:
  assumes "dispatch cls err code message = Inr e"
  shows "api_code e = code" and "api_message e = message" and "http_code e = status err"
  using assms
  by (cases code; auto simp: APIError_init_def split: option.splits)+

lemma from_error_Inr_cases:
  assumes "from_error json_loads cls arg = Inr e"
  obtains (plain) err where "arg = ApiException_instance err"
      and "e = APIError_init cls err PNone PNone False"
      and "body err = None \<or> body err = Some [] \<or>
           (\<exists>s. body err = Some s \<and> json_loads s = JSONDecodeError)"
  | (decoded) err s items where "arg = ApiException_instance err"
      and "body err = Some s" and "s \<noteq> []" and "json_loads s = Decoded (PDict items)"
      and "dispatch cls err (dict_get items ''code'') (dict_get items ''message'') = Inr e"
proof (cases arg)
  case (Other_object x)
  with assms show ?thesis
    by (simp add: from_error_def)
next
  case (ApiException_instance err)
  show ?thesis
  proof (cases "body err")
    case None
    with ApiException_instance assms plain show ?thesis
      by (simp add: from_error_def)
  next
    case (Some s)
    show ?thesis
    proof (cases "s = []")
      case True
      with Some ApiException_instance assms plain show ?thesis
        by (simp add: from_error_def)
    next
      case False
      show ?thesis
      proof (cases "json_loads s")
        case JSONDecodeError
        with False Some ApiException_instance assms plain show ?thesis
          by (simp add: from_error_def)
      next
        case (DecoderRaised x)
        with False Some ApiException_instance assms show ?thesis
          by (simp add: from_error_def)
      next
        case (Decoded v)
        with False Some ApiException_instance assms
        have cd: "classify_decoded cls err v = Inr e"
          by (simp add: from_error_def)
        then obtain items where v: "v = PDict items"
          by (cases v) simp_all
        with cd have "dispatch cls err (dict_get items ''code'') (dict_get items ''message'') = Inr e"
          by simp
        with decoded ApiException_instance Some False Decoded v show ?thesis
          by simp
      qed
    qed
  qed
qed

subsection \<open>C2: when the handled flag is set\<close>

text \<open>
  Counterexample to C2 as stated. In the body \<^verbatim>\<open>{"code":"unauthorized","message":""}\<close>
  a code and a message are both present (neither \<^verbatim>\<open>get\<close> returns \<^verbatim>\<open>None\<close>) and the code
  is a registry key, yet \<^verbatim>\<open>handled\<close> is false.
\<close>

theorem handled_present_counterexample:
  \<open>map_of ERROR_CODE_TO_ERROR_CLASS ''unauthorized'' = Some UnauthorizedError \<and>
   example_loads ''{"code":"unauthorized","message":""}'' =
     Decoded (PDict [(''code'', PStr ''unauthorized''), (''message'', PStr [])]) \<and>
   dict_get [(''code'', PStr ''unauthorized''), (''message'', PStr [])] ''code'' \<noteq> PNone \<and>
   dict_get [(''code'', PStr ''unauthorized''), (''message'', PStr [])] ''message'' \<noteq> PNone \<and>
   from_error example_loads APIError
     (ApiException_instance
        \<lparr>status = 401, body = Some ''{"code":"unauthorized","message":""}''\<rparr> :: unit py_arg) =
     Inr \<lparr>err_class = UnauthorizedError, http_code = 401, api_code = PStr ''unauthorized'',
          api_message = PStr [], handled = False\<rparr>\<close>
  by (simp add: registry_examples example_loads_simps from_error_def dict_get_def
      APIError_init_def)

text \<open>
  C2, amended: for every typed error \<open>e\<close> produced by classification, \<^verbatim>\<open>handled\<close> is true
  if and only if the failure body was a non-empty str that decoded to a JSON object whose
  \<^verbatim>\<open>code\<close> is a key of the registry and whose \<^verbatim>\<open>message\<close> is present and truthy (for a
  string: not empty); \<open>e\<close> then carries that code and that message. The flag is never set
  independently of these facts.
\<close>

theorem handled_iff_known_code_and_truthy_message:
  assumes "from_error json_loads cls arg = Inr e"
  shows "handled e \<longleftrightarrow>
         (\<exists>err s items c.
            arg = ApiException_instance err \<and> body err = Some s \<and> s \<noteq> [] \<and>
            json_loads s = Decoded (PDict items) \<and>
            dict_get items ''code'' = PStr c \<and> api_code e = PStr c \<and>
            c \<in> fst ` set ERROR_CODE_TO_ERROR_CLASS \<and>
            api_message e = dict_get items ''message'' \<and>
            truthy (dict_get items ''message''))"
  using assms
proof (cases rule: from_error_Inr_cases)
  case (plain err)
  then show ?thesis
    by (auto simp: APIError_init_def)
next
  case (decoded err s items)
  from decoded(5) have h: "handled e \<longleftrightarrow>
      (\<exists>c. dict_get items ''code'' = PStr c \<and> c \<in> fst ` set ERROR_CODE_TO_ERROR_CLASS) \<and>
      truthy (dict_get items ''message'')"
    by (rule dispatch_handled)
  from decoded(5) have f: "api_code e = dict_get items ''code''"
      "api_message e = dict_get items ''message''"
    by (rule dispatch_fields)+
  show ?thesis
  proof
    assume "handled e"
    with h f decoded show "\<exists>err s items c.
            arg = ApiException_instance err \<and> body err = Some s \<and> s \<noteq> [] \<and>
            json_loads s = Decoded (PDict items) \<and>
            dict_get items ''code'' = PStr c \<and> api_code e = PStr c \<and>
            c \<in> fst ` set ERROR_CODE_TO_ERROR_CLASS \<and>
            api_message e = dict_get items ''message'' \<and>
            truthy (dict_get items ''message'')"
      by auto
  next
    assume "\<exists>err s items c.
            arg = ApiException_instance err \<and> body err = Some s \<and> s \<noteq> [] \<and>
            json_loads s = Decoded (PDict items) \<and>
            dict_get items ''code'' = PStr c \<and> api_code e = PStr c \<and>
            c \<in> fst ` set ERROR_CODE_TO_ERROR_CLASS \<and>
            api_message e = dict_get items ''message'' \<and>
            truthy (dict_get items ''message'')"
    with h f decoded show "handled e"
      by auto
  qed
qed

lemma not_found_example:
  \<open>from_error example_loads APIError
     (ApiException_instance
        \<lparr>status = 404, body = Some ''{"code":"not_found","message":"wallet not found"}''\<rparr>
        :: unit py_arg) =
     Inr \<lparr>err_class = NotFoundError, http_code = 404, api_code = PStr ''not_found'',
          api_message = PStr ''wallet not found'', handled = True\<rparr>\<close>
  by (simp add: registry_examples example_loads_simps from_error_def dict_get_def
      APIError_init_def)

text \<open>C2 at the \<^verbatim>\<open>not_found\<close> scenario, where both sides of the equivalence hold.\<close>

theorem handled_iff_known_code_and_truthy_message_witness:
  \<open>handled \<lparr>err_class = NotFoundError, http_code = 404, api_code = PStr ''not_found'',
          api_message = PStr ''wallet not found'', handled = True\<rparr> =
   (\<exists>err s items c.
      (ApiException_instance
        \<lparr>status = 404, body = Some ''{"code":"not_found","message":"wallet not found"}''\<rparr>
        :: unit py_arg) = ApiException_instance err \<and> body err = Some s \<and> s \<noteq> [] \<and>
      example_loads s = Decoded (PDict items) \<and>
      dict_get items ''code'' = PStr c \<and>
      api_code \<lparr>err_class = NotFoundError, http_code = 404, api_code = PStr ''not_found'',
          api_message = PStr ''wallet not found'', handled = True\<rparr> = PStr c \<and>
      c \<in> fst ` set ERROR_CODE_TO_ERROR_CLASS \<and>
      api_message \<lparr>err_class = NotFoundError, http_code = 404, api_code = PStr ''not_found'',
          api_message = PStr ''wallet not found'', handled = True\<rparr> = dict_get items ''message'' \<and>
      truthy (dict_get items ''message''))\<close>
  by (rule handled_iff_known_code_and_truthy_message [OF not_found_example])

subsection \<open>C3: a registry code constructs its variant\<close>

text \<open>
  Counterexample to C3 as stated. The body \<^verbatim>\<open>{"code":"not_found"}\<close> has a registry code
  and no message: the result is a \<^verbatim>\<open>NotFoundError\<close> with \<^verbatim>\<open>api_message = None\<close>, and its
  \<^verbatim>\<open>handled\<close> is false, not true.
\<close>

theorem known_code_absent_message_counterexample:
  \<open>map_of ERROR_CODE_TO_ERROR_CLASS ''not_found'' = Some NotFoundError \<and>
   example_loads ''{"code":"not_found"}'' = Decoded (PDict [(''code'', PStr ''not_found'')]) \<and>
   from_error example_loads APIError
     (ApiException_instance \<lparr>status = 404, body = Some ''{"code":"not_found"}''\<rparr>
        :: unit py_arg) =
     Inr \<lparr>err_class = NotFoundError, http_code = 404, api_code = PStr ''not_found'',
          api_message = PNone, handled = False\<rparr>\<close>
  by (simp add: registry_examples example_loads_simps from_error_def dict_get_def
      APIError_init_def)

text \<open>
  C3, amended: for every transport error whose body decodes to a JSON object in which
  \<^verbatim>\<open>code\<close> is present and is a key of the registry, classification constructs the class
  the registry maps that code to, attaching the status code, the server code and the
  server message (which may be absent), and marks \<^verbatim>\<open>handled\<close> true exactly when the
  message is truthy (present, and for a string not empty). The class \<open>cls\<close> on which
  \<^verbatim>\<open>from_error\<close> is called plays no part.
\<close>

theorem known_code_constructs_variant:
  assumes "b \<noteq> []"
    and "json_loads b = Decoded (PDict items)"
    and "dict_get items ''code'' = PStr c"
    and "map_of ERROR_CODE_TO_ERROR_CLASS c = Some k"
  shows "from_error json_loads cls (ApiException_instance \<lparr>status = S, body = Some b\<rparr>) =
         Inr \<lparr>err_class = k, http_code = S, api_code = PStr c,
              api_message = dict_get items ''message'',
              handled = truthy (dict_get items ''message'')\<rparr>"
proof -
  have "c \<noteq> []"
    using assms(4) by (rule registry_lookup_key)
  with assms show ?thesis
    by (simp add: from_error_decoded APIError_init_def Let_def)
qed

text \<open>C3 at two bodies with the code \<^verbatim>\<open>not_found\<close>: without a message, and with one.\<close>

theorem known_code_constructs_variant_witness:
  \<open>from_error example_loads APIError
     (ApiException_instance \<lparr>status = 404, body = Some ''{"code":"not_found"}''\<rparr>
        :: unit py_arg) =
     Inr \<lparr>err_class = NotFoundError, http_code = 404, api_code = PStr ''not_found'',
          api_message = dict_get [(''code'', PStr ''not_found'')] ''message'',
          handled = truthy (dict_get [(''code'', PStr ''not_found'')] ''message'')\<rparr> \<and>
   from_error example_loads APIError
     (ApiException_instance
        \<lparr>status = 404, body = Some ''{"code":"not_found","message":"wallet not found"}''\<rparr>
        :: unit py_arg) =
     Inr \<lparr>err_class = NotFoundError, http_code = 404, api_code = PStr ''not_found'',
          api_message = PStr ''wallet not found'', handled = True\<rparr>\<close>
proof
  show \<open>from_error example_loads APIError
     (ApiException_instance \<lparr>status = 404, body = Some ''{"code":"not_found"}''\<rparr>
        :: unit py_arg) =
     Inr \<lparr>err_class = NotFoundError, http_code = 404, api_code = PStr ''not_found'',
          api_message = dict_get [(''code'', PStr ''not_found'')] ''message'',
          handled = truthy (dict_get [(''code'', PStr ''not_found'')] ''message'')\<rparr>\<close>
    by (rule known_code_constructs_variant)
      (simp_all add: registry_examples example_loads_simps dict_get_def)
  have \<open>from_error example_loads APIError
     (ApiException_instance
        \<lparr>status = 404, body = Some ''{"code":"not_found","message":"wallet not found"}''\<rparr>
        :: unit py_arg) =
     Inr \<lparr>err_class = NotFoundError, http_code = 404, api_code = PStr ''not_found'',
          api_message =
            dict_get [(''code'', PStr ''not_found''), (''message'', PStr ''wallet not found'')]
              ''message'',
          handled =
            truthy (dict_get
              [(''code'', PStr ''not_found''), (''message'', PStr ''wallet not found'')]
              ''message'')\<rparr>\<close>
    by (rule known_code_constructs_variant)
      (simp_all add: registry_examples example_loads_simps dict_get_def)
  then show \<open>from_error example_loads APIError
     (ApiException_instance
        \<lparr>status = 404, body = Some ''{"code":"not_found","message":"wallet not found"}''\<rparr>
        :: unit py_arg) =
     Inr \<lparr>err_class = NotFoundError, http_code = 404, api_code = PStr ''not_found'',
          api_message = PStr ''wallet not found'', handled = True\<rparr>\<close>
    by (simp add: dict_get_def)
qed

subsection \<open>C4: classification never throws\<close>

text \<open>
  C4 fails on the code. The body \<^verbatim>\<open>[1]\<close> is JSON and decodes to a list, which has no
  \<^verbatim>\<open>get\<close>: \<^verbatim>\<open>from_error\<close> raises \<^verbatim>\<open>AttributeError\<close>. The body \<^verbatim>\<open>{"code":[]}\<close> decodes to
  an object whose code is a list, which the membership test cannot hash: \<^verbatim>\<open>from_error\<close>
  raises \<^verbatim>\<open>TypeError\<close>. The \<^verbatim>\<open>try\<close> around \<^verbatim>\<open>json.loads\<close> covers neither.
\<close>

theorem non_object_body_raises:
  \<open>example_loads ''[1]'' = Decoded (PList [PInt 1]) \<and>
   from_error example_loads APIError
     (ApiException_instance \<lparr>status = 500, body = Some ''[1]''\<rparr> :: unit py_arg) =
     Inl AttributeError \<and>
   example_loads ''{"code":[]}'' = Decoded (PDict [(''code'', PList [])]) \<and>
   from_error example_loads APIError
     (ApiException_instance \<lparr>status = 500, body = Some ''{"code":[]}''\<rparr> :: unit py_arg) =
     Inl TypeError\<close>
  by (simp add: example_loads_simps from_error_def dict_get_def)

subsection \<open>C5: a code outside the registry\<close>

text \<open>
  C5: for every code string \<open>c\<close> that is not a key of the registry, classifying a body
  that decodes to a JSON object with that code yields the base class \<^verbatim>\<open>APIError\<close> with
  \<^verbatim>\<open>handled = False\<close> and \<^verbatim>\<open>api_code = c\<close> (and the status and the message of the body).
\<close>

theorem unknown_code_base_unhandled:
  assumes "b \<noteq> []"
    and "json_loads b = Decoded (PDict items)"
    and "dict_get items ''code'' = PStr c"
    and "c \<notin> fst ` set ERROR_CODE_TO_ERROR_CLASS"
  shows "from_error json_loads APIError (ApiException_instance \<lparr>status = S, body = Some b\<rparr>) =
         Inr \<lparr>err_class = APIError, http_code = S, api_code = PStr c,
              api_message = dict_get items ''message'', handled = False\<rparr>"
proof -
  have "map_of ERROR_CODE_TO_ERROR_CLASS c = None"
    using assms(4) by (simp add: registry_lookup_None)
  with assms show ?thesis
    by (simp add: from_error_decoded APIError_init_def Let_def)
qed

text \<open>C5 at the spec's example code \<^verbatim>\<open>totally_unknown_code\<close>.\<close>

theorem unknown_code_base_unhandled_witness:
  \<open>from_error example_loads APIError
     (ApiException_instance
        \<lparr>status = 400, body = Some ''{"code":"totally_unknown_code","message":"m"}''\<rparr>
        :: unit py_arg) =
     Inr \<lparr>err_class = APIError, http_code = 400, api_code = PStr ''totally_unknown_code'',
          api_message = PStr ''m'', handled = False\<rparr>\<close>
proof -
  have \<open>from_error example_loads APIError
     (ApiException_instance
        \<lparr>status = 400, body = Some ''{"code":"totally_unknown_code","message":"m"}''\<rparr>
        :: unit py_arg) =
     Inr \<lparr>err_class = APIError, http_code = 400, api_code = PStr ''totally_unknown_code'',
          api_message =
            dict_get [(''code'', PStr ''totally_unknown_code''), (''message'', PStr ''m'')]
              ''message'',
          handled = False\<rparr>\<close>
    by (rule unknown_code_base_unhandled)
      (simp_all add: example_loads_simps dict_get_def registry_keys)
  then show ?thesis
    by (simp add: dict_get_def)
qed

subsection \<open>C6: no body, or a body that is not JSON\<close>

text \<open>
  C6: for every transport error whose body is absent, or whose body \<^verbatim>\<open>json.loads\<close>
  rejects with \<^verbatim>\<open>JSONDecodeError\<close>, classification yields the base class with
  \<^verbatim>\<open>api_code\<close> and \<^verbatim>\<open>api_message\<close> absent, \<^verbatim>\<open>handled = False\<close> and \<^verbatim>\<open>http_code\<close> the
  status of the input.
\<close>

theorem absent_or_undecodable_body_base:
  assumes "body err = None \<or> (\<exists>s. body err = Some s \<and> json_loads s = JSONDecodeError)"
  shows "from_error json_loads APIError (ApiException_instance err) =
         Inr \<lparr>err_class = APIError, http_code = status err, api_code = PNone,
              api_message = PNone, handled = False\<rparr>"
  using assms by (auto simp: from_error_def APIError_init_def)

text \<open>
  C6 at the spec's scenario (status 500, body \<^verbatim>\<open>not json\<close>) and at an absent body.
\<close>

theorem absent_or_undecodable_body_base_witness:
  \<open>from_error example_loads APIError
     (ApiException_instance \<lparr>status = 500, body = Some ''not json''\<rparr> :: unit py_arg) =
     Inr \<lparr>err_class = APIError, http_code = 500, api_code = PNone, api_message = PNone,
          handled = False\<rparr> \<and>
   from_error example_loads APIError
     (ApiException_instance \<lparr>status = 503, body = None\<rparr> :: unit py_arg) =
     Inr \<lparr>err_class = APIError, http_code = 503, api_code = PNone, api_message = PNone,
          handled = False\<rparr>\<close>
  using absent_or_undecodable_body_base [of "\<lparr>status = 500, body = Some ''not json''\<rparr>" example_loads]
    absent_or_undecodable_body_base [of "\<lparr>status = 503, body = None\<rparr>" example_loads]
  by (simp add: example_loads_simps)

subsection \<open>C7: the string rendering\<close>

lemma digits_chars: "set (digits n) \<subseteq> set ''0123456789''"
proof (induction n rule: digits.induct)
  case (1 n)
  define ds where "ds = ''0123456789''"
  have len: "length ds = 10"
    by (simp add: ds_def)
  have mem: "ds ! k \<in> set ds" if "k < 10" for k
    using that len by simp
  have eq: "digits n = (if n < 10 then [ds ! n] else digits (n div 10) @ [ds ! (n mod 10)])"
    unfolding ds_def by (rule digits.simps)
  have IH: "set (digits (n div 10)) \<subseteq> set ds" if "\<not> n < 10"
    unfolding ds_def using that by (rule 1)
  have "set (digits n) \<subseteq> set ds"
  proof (cases "n < 10")
    case True
    with mem [of n] show ?thesis
      by (simp add: eq)
  next
    case False
    with mem [of "n mod 10"] IH show ?thesis
      by (simp add: eq)
  qed
  then show ?case
    by (simp only: ds_def)
qed

lemma str_int_chars: "CHR ''u'' \<notin> set (str_int n)"
proof -
  have u: "CHR ''u'' \<notin> set ''0123456789''"
    by simp
  have "CHR ''u'' \<notin> set (digits k)" for k
    using digits_chars [of k] u by blast
  then show ?thesis
    by (simp add: str_int_def)
qed

lemma marker_not_in_str_int: "\<not> sublist ''unhandled=True'' (str_int n)"
proof
  assume "sublist ''unhandled=True'' (str_int n)"
  then have "set ''unhandled=True'' \<subseteq> set (str_int n)"
    by (rule set_mono_sublist)
  then have "CHR ''u'' \<in> set (str_int n)"
    by simp
  with str_int_chars show False
    by blast
qed

lemma sublist_separator:
  assumes "c \<notin> set m"
  shows "sublist m (xs @ c # ys) \<longleftrightarrow> sublist m xs \<or> sublist m ys"
proof
  assume "sublist m (xs @ c # ys)"
  then consider "sublist m xs" | "sublist m (c # ys)"
    | m1 m2 where "m = m1 @ m2" "suffix m1 xs" "prefix m2 (c # ys)"
    by (auto simp: sublist_append)
  then show "sublist m xs \<or> sublist m ys"
  proof cases
    case 1
    then show ?thesis ..
  next
    case 2
    then have "prefix m (c # ys) \<or> sublist m ys"
      by (simp add: sublist_Cons_right)
    moreover have "m = []" if "prefix m (c # ys)"
      using that assms by (cases m) auto
    ultimately show ?thesis
      by auto
  next
    case 3
    from 3(3) assms 3(1) have "m2 = []"
      by (cases m2) auto
    with 3 have "suffix m xs"
      by simp
    then have "sublist m xs"
      by (rule suffix_imp_sublist)
    then show ?thesis ..
  qed
next
  assume "sublist m xs \<or> sublist m ys"
  then show "sublist m (xs @ c # ys)"
    by (auto simp: sublist_append sublist_Cons_right)
qed

lemma marker_in_handled_rendering:
  assumes "\<not> sublist ''unhandled=True'' N"
  shows "sublist ''unhandled=True''
           (''APIError(http_code='' @ N @ '', api_code='' @ C @ '', api_message='' @ M @ '')'') \<longleftrightarrow>
         sublist ''unhandled=True'' C \<or> sublist ''unhandled=True'' M"
proof -
  let ?m = "''unhandled=True''"
  have 1: "sublist ?m (''APIError(http_code='' @ N @ '', api_code='' @ C @ '', api_message='' @ M @ '')'') \<longleftrightarrow>
        sublist ?m (N @ CHR '','' # ('' api_code='' @ C @ '', api_message='' @ M @ '')''))"
    by (simp add: sublist_Cons_right)
  have 2: "sublist ?m (N @ CHR '','' # ('' api_code='' @ C @ '', api_message='' @ M @ '')'')) \<longleftrightarrow>
        sublist ?m N \<or> sublist ?m ('' api_code='' @ C @ '', api_message='' @ M @ '')'')"
    by (rule sublist_separator) simp
  have 3: "sublist ?m ('' api_code='' @ C @ '', api_message='' @ M @ '')'') \<longleftrightarrow>
        sublist ?m (C @ CHR '','' # ('' api_message='' @ M @ '')''))"
    by (simp add: sublist_Cons_right)
  have 4: "sublist ?m (C @ CHR '','' # ('' api_message='' @ M @ '')'')) \<longleftrightarrow>
        sublist ?m C \<or> sublist ?m ('' api_message='' @ M @ '')'')"
    by (rule sublist_separator) simp
  have 5: "sublist ?m ('' api_message='' @ M @ '')'') \<longleftrightarrow> sublist ?m (M @ CHR '')'' # [])"
    by (simp add: sublist_Cons_right)
  have 6: "sublist ?m (M @ CHR '')'' # []) \<longleftrightarrow> sublist ?m M \<or> sublist ?m []"
    by (rule sublist_separator) simp
  from assms show ?thesis
    unfolding 1 2 3 4 5 6 by simp
qed

lemma sublist_marker:
  "sublist ''unhandled=True'' (xs @ '', unhandled=True)'')"
proof -
  have "xs @ '', unhandled=True)'' = (xs @ '', '') @ ''unhandled=True'' @ '')''"
    by simp
  then show ?thesis
    unfolding sublist_def by blast
qed

lemma str_int_404: "str_int 404 = ''404''"
  by (simp add: str_int_def digits.simps)

lemma str_int_500: "str_int 500 = ''500''"
  by (simp add: str_int_def digits.simps)

text \<open>
  Counterexample to C7 as stated. Status 404 and the body
  \<^verbatim>\<open>{"code":"not_found","message":"x, unhandled=True"}\<close> classify to a handled
  \<^verbatim>\<open>NotFoundError\<close>. The message is interpolated verbatim, so the rendering of this
  handled error contains \<^verbatim>\<open>unhandled=True\<close>; it is the very text that renders the
  unhandled error \<^verbatim>\<open>NotFoundError(err, code="not_found", message="x", unhandled=True)\<close>.
\<close>

theorem handled_rendering_marker_counterexample:
  \<open>from_error example_loads APIError
     (ApiException_instance
        \<lparr>status = 404, body = Some ''{"code":"not_found","message":"x, unhandled=True"}''\<rparr>
        :: unit py_arg) =
     Inr \<lparr>err_class = NotFoundError, http_code = 404, api_code = PStr ''not_found'',
          api_message = PStr ''x, unhandled=True'', handled = True\<rparr> \<and>
   APIError_str (\<lambda>v. [])
     \<lparr>err_class = NotFoundError, http_code = 404, api_code = PStr ''not_found'',
      api_message = PStr ''x, unhandled=True'', handled = True\<rparr> =
     ''APIError(http_code=404, api_code=not_found, api_message=x, unhandled=True)'' \<and>
   sublist ''unhandled=True''
     (APIError_str (\<lambda>v. [])
        \<lparr>err_class = NotFoundError, http_code = 404, api_code = PStr ''not_found'',
         api_message = PStr ''x, unhandled=True'', handled = True\<rparr>) \<and>
   APIError_str (\<lambda>v. [])
     (APIError_init NotFoundError \<lparr>status = 404, body = None\<rparr>
        (PStr ''not_found'') (PStr ''x'') True) =
     ''APIError(http_code=404, api_code=not_found, api_message=x, unhandled=True)''\<close>
proof (intro conjI)
  show \<open>from_error example_loads APIError
     (ApiException_instance
        \<lparr>status = 404, body = Some ''{"code":"not_found","message":"x, unhandled=True"}''\<rparr>
        :: unit py_arg) =
     Inr \<lparr>err_class = NotFoundError, http_code = 404, api_code = PStr ''not_found'',
          api_message = PStr ''x, unhandled=True'', handled = True\<rparr>\<close>
    by (simp add: registry_examples example_loads_simps from_error_def dict_get_def
        APIError_init_def)
  show r: "APIError_str (\<lambda>v. [])
     \<lparr>err_class = NotFoundError, http_code = 404, api_code = PStr ''not_found'',
      api_message = PStr ''x, unhandled=True'', handled = True\<rparr> =
     ''APIError(http_code=404, api_code=not_found, api_message=x, unhandled=True)''"
    by (simp add: APIError_str_def str_int_404)
  have "sublist ''unhandled=True''
     (''APIError(http_code=404, api_code=not_found, api_message=x'' @ '', unhandled=True)'')"
    by (rule sublist_marker)
  then show "sublist ''unhandled=True''
     (APIError_str (\<lambda>v. [])
        \<lparr>err_class = NotFoundError, http_code = 404, api_code = PStr ''not_found'',
         api_message = PStr ''x, unhandled=True'', handled = True\<rparr>)"
    unfolding r by simp
  show "APIError_str (\<lambda>v. [])
     (APIError_init NotFoundError \<lparr>status = 404, body = None\<rparr>
        (PStr ''not_found'') (PStr ''x'') True) =
     ''APIError(http_code=404, api_code=not_found, api_message=x, unhandled=True)''"
    by (simp add: APIError_str_def APIError_init_def str_int_404)
qed

text \<open>
  C7, amended: for every typed error \<open>e\<close>, when \<^verbatim>\<open>handled\<close> the rendering is exactly
  \<^verbatim>\<open>APIError(http_code=<n>, api_code=<code>, api_message=<message>)\<close>, and it contains
  the text \<^verbatim>\<open>unhandled=True\<close> if and only if the text of the code or of the message
  itself contains it; when not \<^verbatim>\<open>handled\<close> the rendering is the same text with
  \<^verbatim>\<open>, unhandled=True\<close> before the closing parenthesis, so it always contains the
  marker. The two renderings of the same attributes differ by exactly that marker.
\<close>

theorem str_rendering:
  "(handled e \<longrightarrow>
      APIError_str py_repr e =
        ''APIError(http_code='' @ str_int (http_code e) @
        '', api_code='' @ py_str py_repr (api_code e) @
        '', api_message='' @ py_str py_repr (api_message e) @ '')'' \<and>
      (sublist ''unhandled=True'' (APIError_str py_repr e) \<longleftrightarrow>
         sublist ''unhandled=True'' (py_str py_repr (api_code e)) \<or>
         sublist ''unhandled=True'' (py_str py_repr (api_message e)))) \<and>
   (\<not> handled e \<longrightarrow>
      APIError_str py_repr e =
        ''APIError(http_code='' @ str_int (http_code e) @
        '', api_code='' @ py_str py_repr (api_code e) @
        '', api_message='' @ py_str py_repr (api_message e) @ '', unhandled=True)'' \<and>
      sublist ''unhandled=True'' (APIError_str py_repr e)) \<and>
   APIError_str py_repr (e\<lparr>handled := False\<rparr>) =
     butlast (APIError_str py_repr (e\<lparr>handled := True\<rparr>)) @ '', unhandled=True)''"
proof (intro conjI impI)
  assume h: "handled e"
  then show eq: "APIError_str py_repr e =
        ''APIError(http_code='' @ str_int (http_code e) @
        '', api_code='' @ py_str py_repr (api_code e) @
        '', api_message='' @ py_str py_repr (api_message e) @ '')''"
    by (simp add: APIError_str_def)
  show "sublist ''unhandled=True'' (APIError_str py_repr e) \<longleftrightarrow>
         sublist ''unhandled=True'' (py_str py_repr (api_code e)) \<or>
         sublist ''unhandled=True'' (py_str py_repr (api_message e))"
    unfolding eq by (rule marker_in_handled_rendering) (rule marker_not_in_str_int)
next
  assume "\<not> handled e"
  then show "APIError_str py_repr e =
        ''APIError(http_code='' @ str_int (http_code e) @
        '', api_code='' @ py_str py_repr (api_code e) @
        '', api_message='' @ py_str py_repr (api_message e) @ '', unhandled=True)''"
    by (simp add: APIError_str_def)
next
  assume "\<not> handled e"
  then have "APIError_str py_repr e =
        (''APIError(http_code='' @ str_int (http_code e) @
        '', api_code='' @ py_str py_repr (api_code e) @
        '', api_message='' @ py_str py_repr (api_message e)) @ '', unhandled=True)''"
    by (simp add: APIError_str_def)
  then show "sublist ''unhandled=True'' (APIError_str py_repr e)"
    by (simp only: sublist_marker)
next
  show "APIError_str py_repr (e\<lparr>handled := False\<rparr>) =
     butlast (APIError_str py_repr (e\<lparr>handled := True\<rparr>)) @ '', unhandled=True)''"
    by (simp add: APIError_str_def butlast_append)
qed

text \<open>
  C7 at the two scenarios of the spec: the handled \<^verbatim>\<open>NotFoundError\<close> with status 404,
  whose rendering has no marker, and the unhandled base error with status 500.
\<close>

theorem str_rendering_witness:
  "APIError_str (\<lambda>v. [])
     \<lparr>err_class = NotFoundError, http_code = 404, api_code = PStr ''not_found'',
      api_message = PStr ''wallet not found'', handled = True\<rparr> =
     ''APIError(http_code=404, api_code=not_found, api_message=wallet not found)'' \<and>
   \<not> sublist ''unhandled=True''
     (APIError_str (\<lambda>v. [])
        \<lparr>err_class = NotFoundError, http_code = 404, api_code = PStr ''not_found'',
         api_message = PStr ''wallet not found'', handled = True\<rparr>) \<and>
   APIError_str (\<lambda>v. [])
     \<lparr>err_class = APIError, http_code = 500, api_code = PNone, api_message = PNone,
      handled = False\<rparr> =
     ''APIError(http_code=500, api_code=None, api_message=None, unhandled=True)'' \<and>
   sublist ''unhandled=True''
     (APIError_str (\<lambda>v. [])
        \<lparr>err_class = APIError, http_code = 500, api_code = PNone, api_message = PNone,
         handled = False\<rparr>)"
proof -
  have yh: "handled \<lparr>err_class = NotFoundError, http_code = 404,
      api_code = PStr ''not_found'', api_message = PStr ''wallet not found'',
      handled = True\<rparr>"
    by simp
  note rh = str_rendering [THEN conjunct1, rule_format, OF yh, where py_repr = "\<lambda>v. []"]
  have h: "APIError_str (\<lambda>v. [])
     \<lparr>err_class = NotFoundError, http_code = 404, api_code = PStr ''not_found'',
      api_message = PStr ''wallet not found'', handled = True\<rparr> =
     ''APIError(http_code=404, api_code=not_found, api_message=wallet not found)''"
    using rh [THEN conjunct1] by (simp add: str_int_404)
  have c: "\<not> sublist ''unhandled=True'' ''not_found''"
    by (simp add: sublist_Cons_right)
  have w: "\<not> sublist ''unhandled=True'' ''wallet not found''"
    by (simp add: sublist_Cons_right)
  have n: "\<not> sublist ''unhandled=True''
     (APIError_str (\<lambda>v. [])
        \<lparr>err_class = NotFoundError, http_code = 404, api_code = PStr ''not_found'',
         api_message = PStr ''wallet not found'', handled = True\<rparr>)"
    using rh [THEN conjunct2] c w by simp
  have nh: "\<not> handled \<lparr>err_class = APIError, http_code = 500, api_code = PNone,
      api_message = PNone, handled = False\<rparr>"
    by simp
  note r = str_rendering [THEN conjunct2, THEN conjunct1, rule_format, OF nh,
      where py_repr = "\<lambda>v. []"]
  have u: "APIError_str (\<lambda>v. [])
       \<lparr>err_class = APIError, http_code = 500, api_code = PNone, api_message = PNone,
        handled = False\<rparr> =
       ''APIError(http_code=500, api_code=None, api_message=None, unhandled=True)''"
    using r [THEN conjunct1] by (simp add: str_int_500)
  have m: "sublist ''unhandled=True''
       (APIError_str (\<lambda>v. [])
          \<lparr>err_class = APIError, http_code = 500, api_code = PNone, api_message = PNone,
           handled = False\<rparr>)"
    by (rule r [THEN conjunct2])
  from h n u m show ?thesis
    by (intro conjI)
qed

subsection \<open>C8: the keys of the registry\<close>

text \<open>
  C8: the key set of \<^verbatim>\<open>ERROR_CODE_TO_ERROR_CLASS\<close> is exactly the 23 listed codes; the
  23 entries have distinct keys and distinct classes, none of them the base class; and
  the lookup of lines 37 to 40 is exact string equality: a str code gets a registry
  class if and only if it is literally one of the keys, and falls back to the unhandled
  base error if and only if it is not. Differing in case, a trailing space or a proper
  prefix of a key do not match.
\<close>

theorem registry_exact_keys:
  "fst ` set ERROR_CODE_TO_ERROR_CLASS =
     {''unimplemented'', ''unauthorized'', ''internal'', ''not_found'',
      ''invalid_wallet_id'', ''invalid_address_id'', ''invalid_wallet'',
      ''invalid_address'', ''invalid_amount'', ''invalid_transfer_id'',
      ''invalid_page_token'', ''invalid_page_limit'', ''already_exists'',
      ''malformed_request'', ''unsupported_asset'', ''invalid_asset_id'',
      ''invalid_destination'', ''invalid_network_id'', ''resource_exhausted'',
      ''faucet_limit_reached'', ''invalid_signed_payload'',
      ''invalid_transfer_status'', ''network_feature_unsupported''} \<and>
   length ERROR_CODE_TO_ERROR_CLASS = 23 \<and>
   distinct (map fst ERROR_CODE_TO_ERROR_CLASS) \<and>
   distinct (map snd ERROR_CODE_TO_ERROR_CLASS) \<and>
   APIError \<notin> snd ` set ERROR_CODE_TO_ERROR_CLASS \<and>
   (\<forall>cls err c m.
      (\<exists>k. (c, k) \<in> set ERROR_CODE_TO_ERROR_CLASS \<and>
           dispatch cls err (PStr c) m = Inr (APIError_init k err (PStr c) m False)) =
      (c \<in> fst ` set ERROR_CODE_TO_ERROR_CLASS)) \<and>
   (\<forall>err c m.
      (dispatch APIError err (PStr c) m = Inr (APIError_init APIError err (PStr c) m True)) =
      (c \<notin> fst ` set ERROR_CODE_TO_ERROR_CLASS)) \<and>
   map_of ERROR_CODE_TO_ERROR_CLASS ''not_found'' = Some NotFoundError \<and>
   map_of ERROR_CODE_TO_ERROR_CLASS ''NOT_FOUND'' = None \<and>
   map_of ERROR_CODE_TO_ERROR_CLASS ''Not_Found'' = None \<and>
   map_of ERROR_CODE_TO_ERROR_CLASS ''not_found '' = None \<and>
   map_of ERROR_CODE_TO_ERROR_CLASS ''not'' = None"
proof (intro conjI allI)
  show "fst ` set ERROR_CODE_TO_ERROR_CLASS =
     {''unimplemented'', ''unauthorized'', ''internal'', ''not_found'',
      ''invalid_wallet_id'', ''invalid_address_id'', ''invalid_wallet'',
      ''invalid_address'', ''invalid_amount'', ''invalid_transfer_id'',
      ''invalid_page_token'', ''invalid_page_limit'', ''already_exists'',
      ''malformed_request'', ''unsupported_asset'', ''invalid_asset_id'',
      ''invalid_destination'', ''invalid_network_id'', ''resource_exhausted'',
      ''faucet_limit_reached'', ''invalid_signed_payload'',
      ''invalid_transfer_status'', ''network_feature_unsupported''}"
    by (rule registry_keys)
  show "length ERROR_CODE_TO_ERROR_CLASS = 23"
    by (simp add: ERROR_CODE_TO_ERROR_CLASS_def)
  show "distinct (map fst ERROR_CODE_TO_ERROR_CLASS)"
    by (rule registry_distinct_keys)
  show "distinct (map snd ERROR_CODE_TO_ERROR_CLASS)"
    by (rule registry_distinct_classes)
  show "APIError \<notin> snd ` set ERROR_CODE_TO_ERROR_CLASS"
    by (rule registry_classes_not_base)
  show "(\<exists>k. (c, k) \<in> set ERROR_CODE_TO_ERROR_CLASS \<and>
           dispatch cls err (PStr c) m = Inr (APIError_init k err (PStr c) m False)) =
      (c \<in> fst ` set ERROR_CODE_TO_ERROR_CLASS)" for cls err c m
  proof (cases "map_of ERROR_CODE_TO_ERROR_CLASS c")
    case None
    then have "c \<notin> fst ` set ERROR_CODE_TO_ERROR_CLASS"
      by (simp add: registry_lookup_None)
    then show ?thesis
      by force
  next
    case (Some k)
    then have "(c, k) \<in> set ERROR_CODE_TO_ERROR_CLASS"
      by (simp add: registry_lookup_iff)
    moreover from Some
    have "dispatch cls err (PStr c) m = Inr (APIError_init k err (PStr c) m False)"
      by simp
    ultimately show ?thesis
      by force
  qed
  show "(dispatch APIError err (PStr c) m = Inr (APIError_init APIError err (PStr c) m True)) =
      (c \<notin> fst ` set ERROR_CODE_TO_ERROR_CLASS)" for err c m
  proof (cases "map_of ERROR_CODE_TO_ERROR_CLASS c")
    case None
    then have "c \<notin> fst ` set ERROR_CODE_TO_ERROR_CLASS"
      by (simp add: registry_lookup_None)
    with None show ?thesis
      by simp
  next
    case (Some k)
    then have "c \<in> fst ` set ERROR_CODE_TO_ERROR_CLASS" and "k \<noteq> APIError"
      by (rule registry_lookup_key)+
    with Some show ?thesis
      by (simp add: APIError_init_def)
  qed
qed (simp_all add: ERROR_CODE_TO_ERROR_CLASS_def)

subsection \<open>C9: round trip of \<^verbatim>\<open>WebhookEventFilter\<close>\<close>

lemma to_dict_never_null: "map_of (to_dict x) k \<noteq> Some PNone"
  by (cases "contract_address x"; cases "from_address x"; cases "to_address x")
    (simp_all add: to_dict_def map_filter_simps)

lemma to_dict_round_trip:
  "from_dict (PDict (to_dict x)) = Inr (Some (x\<lparr>model_fields_set := set properties\<rparr>))"
  by (cases x; cases "contract_address x"; cases "from_address x"; cases "to_address x")
    (simp_all add: to_dict_def map_filter_simps from_dict_def model_validate_def
      validate_key_def dict_get_def properties_def)

lemma to_dict_lookup:
  "map_of (to_dict x) k =
     (if k = ''contract_address'' then map_option PStr (contract_address x)
      else if k = ''from_address'' then map_option PStr (from_address x)
      else if k = ''to_address'' then map_option PStr (to_address x)
      else None)"
  by (cases "contract_address x"; cases "from_address x"; cases "to_address x")
    (simp_all add: to_dict_def map_filter_simps)

lemma model_validate_fields:
  assumes "model_validate kwargs = Inr x"
  shows "validate_key kwargs ''contract_address'' = Inr (contract_address x)"
    and "validate_key kwargs ''from_address'' = Inr (from_address x)"
    and "validate_key kwargs ''to_address'' = Inr (to_address x)"
  using assms by (auto simp: model_validate_def split: sum.splits)

lemma unset_field_absent:
  assumes "model_validate kwargs = Inr x" and "k \<notin> fst ` set kwargs"
  shows "map_of (to_dict x) k = None"
proof -
  from assms(2) have "map_of kwargs k = None"
    by (simp add: map_of_eq_None_iff)
  then have vk: "validate_key kwargs k = Inr None"
    by (simp add: validate_key_def)
  note fs = model_validate_fields [OF assms(1)]
  have c: "contract_address x = None" if "k = ''contract_address''"
    using vk fs(1) unfolding that by simp
  have f: "from_address x = None" if "k = ''from_address''"
    using vk fs(2) unfolding that by simp
  have t: "to_address x = None" if "k = ''to_address''"
    using vk fs(3) unfolding that by simp
  show ?thesis
    unfolding to_dict_lookup using c f t by simp
qed

text \<open>
  C9: for every instance \<open>x\<close> (its fields are \<^verbatim>\<open>None\<close> or a str, as the schema asks),
  \<^verbatim>\<open>from_dict(to_dict(x))\<close> succeeds with an instance whose field values are those of
  \<open>x\<close>, hence equal to \<open>x\<close> by the model's equality (only \<^verbatim>\<open>model_fields_set\<close> grows to
  all three names). The output of \<^verbatim>\<open>to_dict\<close> never holds a null, and a field that was
  not given at construction is absent from it. No field of this schema is nullable, so
  the exception for nullable fields set to null never applies.
\<close>

theorem webhook_event_filter_round_trip:
  "from_dict (PDict (to_dict x)) = Inr (Some (x\<lparr>model_fields_set := set properties\<rparr>)) \<and>
   model_eq (x\<lparr>model_fields_set := set properties\<rparr>) x \<and>
   (\<forall>k. map_of (to_dict x) k \<noteq> Some PNone) \<and>
   (\<forall>kwargs k. model_validate kwargs = Inr x \<and> k \<notin> fst ` set kwargs \<longrightarrow>
      map_of (to_dict x) k = None)"
proof (intro conjI allI impI)
  show "from_dict (PDict (to_dict x)) = Inr (Some (x\<lparr>model_fields_set := set properties\<rparr>))"
    by (rule to_dict_round_trip)
  show "model_eq (x\<lparr>model_fields_set := set properties\<rparr>) x"
    by (simp add: model_eq_def)
  show "map_of (to_dict x) k \<noteq> Some PNone" for k
    by (rule to_dict_never_null)
  show "map_of (to_dict x) k = None"
    if "model_validate kwargs = Inr x \<and> k \<notin> fst ` set kwargs" for kwargs k
    using that by (blast intro: unset_field_absent)
qed

text \<open>
  C9 at the instance built by \<^verbatim>\<open>WebhookEventFilter(contract_address="0xabc")\<close>.
\<close>

theorem webhook_event_filter_round_trip_witness:
  "model_validate [(''contract_address'', PStr ''0xabc'')] =
     Inr \<lparr>contract_address = Some ''0xabc'', from_address = None, to_address = None,
          model_fields_set = {''contract_address''}\<rparr> \<and>
   to_dict \<lparr>contract_address = Some ''0xabc'', from_address = None, to_address = None,
          model_fields_set = {''contract_address''}\<rparr> =
     [(''contract_address'', PStr ''0xabc'')] \<and>
   map_of (to_dict \<lparr>contract_address = Some ''0xabc'', from_address = None, to_address = None,
          model_fields_set = {''contract_address''}\<rparr>) ''to_address'' = None \<and>
   from_dict (PDict (to_dict \<lparr>contract_address = Some ''0xabc'', from_address = None,
          to_address = None, model_fields_set = {''contract_address''}\<rparr>)) =
     Inr (Some \<lparr>contract_address = Some ''0xabc'', from_address = None, to_address = None,
          model_fields_set = {''contract_address'', ''from_address'', ''to_address''}\<rparr>)"
proof -
  let ?x = "\<lparr>contract_address = Some ''0xabc'', from_address = None, to_address = None,
          model_fields_set = {''contract_address''}\<rparr>"
  have v: "model_validate [(''contract_address'', PStr ''0xabc'')] = Inr ?x"
    by (simp add: model_validate_def validate_key_def properties_def)
  have d: "to_dict ?x = [(''contract_address'', PStr ''0xabc'')]"
    by (simp add: to_dict_def map_filter_simps)
  note r = webhook_event_filter_round_trip [of ?x]
  have "''to_address'' \<notin> fst ` set [(''contract_address'', PStr ''0xabc'')]"
    by simp
  with v have a: "map_of (to_dict ?x) ''to_address'' = None"
    using r [THEN conjunct2, THEN conjunct2, THEN conjunct2, rule_format,
        of "[(''contract_address'', PStr ''0xabc'')]" "''to_address''"]
    by blast
  have rt: "from_dict (PDict (to_dict ?x)) =
     Inr (Some \<lparr>contract_address = Some ''0xabc'', from_address = None, to_address = None,
          model_fields_set = {''contract_address'', ''from_address'', ''to_address''}\<rparr>)"
    using r [THEN conjunct1] by (simp add: properties_def)
  from v d a rt show ?thesis
    by (intro conjI)
qed

subsection \<open>C10: the argument check\<close>






end
